theory Spec2Isabelle
  imports Main "HOL-Library.Word"
begin

section \<open>Unicode: the ASCII table implementation\<close>

text \<open>
  \<^verbatim>\<open>Unicode.cpp\<close>, the branch compiled when the Unicode data is not included.
  A \<^verbatim>\<open>char32_t\<close> is a 32-bit unsigned value; a character literal of the source
  is written \<open>c32 CHR ''A''\<close>, or by its code where the literal is an escape.
  Only the categories this file names are listed; the enumeration itself is
  declared in \<^verbatim>\<open>Unicode.hpp\<close>.
\<close>

type_synonym char32_t = "32 word"

abbreviation c32 :: "char \<Rightarrow> char32_t" where
  "c32 c \<equiv> of_char c"

datatype Category =
    Category_NoCategory
  | Category_Other_Control
  | Category_Separator_Space
  | Category_Punctuation_Other
  | Category_Punctuation_Open
  | Category_Punctuation_Close
  | Category_Symbol_Math
  | Category_Punctuation_Dash
  | Category_Number_DecimalDigit
  | Category_Punctuation_Connector
  | Category_Symbol_Modifier

text \<open>One \<open>if\<close> per group of \<^verbatim>\<open>case\<close> labels of the \<^verbatim>\<open>switch\<close>, in the source's order.\<close>

definition GetCategory :: "char32_t \<Rightarrow> Category" where
  "GetCategory character =
    (if character \<in> set [0x00, 0x01, 0x02, 0x03, 0x04, 0x05, 0x06, 0x07,
                          0x08, 0x09, 0x0A, 0x0B, 0x0C, 0x0D, 0x0E, 0x0F,
                          0x10, 0x11, 0x12, 0x13, 0x14, 0x15, 0x16, 0x17,
                          0x18, 0x19, 0x1A, 0x1B, 0x1C, 0x1D, 0x1E, 0x1F, 0x7F]
       then Category_Other_Control
     else if character = c32 CHR '' ''
       then Category_Separator_Space
     else if character \<in> set [c32 CHR ''!'', 0x22, c32 CHR ''#'', c32 CHR ''$'',
                               c32 CHR ''%'', c32 CHR ''&'', 0x27, c32 CHR ''*'',
                               c32 CHR '','', c32 CHR ''.'', c32 CHR ''/'', c32 CHR '':'',
                               c32 CHR '';'', c32 CHR ''?'', c32 CHR ''@'', 0x5C]
       then Category_Punctuation_Other
     else if character \<in> set [c32 CHR ''('', c32 CHR ''['', c32 CHR ''{'']
       then Category_Punctuation_Open
     else if character \<in> set [c32 CHR '')'', c32 CHR ''}'', c32 CHR '']'']
       then Category_Punctuation_Close
     else if character \<in> set [c32 CHR ''+'', c32 CHR ''<'', c32 CHR ''='', c32 CHR ''>'',
                               c32 CHR ''|'', c32 CHR ''~'']
       then Category_Symbol_Math
     else if character = c32 CHR ''-''
       then Category_Punctuation_Dash
     else if character \<in> set [c32 CHR ''0'', c32 CHR ''1'', c32 CHR ''2'', c32 CHR ''3'',
                               c32 CHR ''4'', c32 CHR ''5'', c32 CHR ''6'', c32 CHR ''7'',
                               c32 CHR ''8'', c32 CHR ''9'']
       then Category_Number_DecimalDigit
     else if character \<in> set [c32 CHR ''A'', c32 CHR ''B'', c32 CHR ''C'', c32 CHR ''D'',
                               c32 CHR ''E'', c32 CHR ''F'', c32 CHR ''G'', c32 CHR ''H'',
                               c32 CHR ''I'', c32 CHR ''J'', c32 CHR ''K'', c32 CHR ''L'',
                               c32 CHR ''M'', c32 CHR ''N'', c32 CHR ''O'', c32 CHR ''P'',
                               c32 CHR ''Q'', c32 CHR ''R'', c32 CHR ''S'', c32 CHR ''T'',
                               c32 CHR ''U'', c32 CHR ''V'', c32 CHR ''W'', c32 CHR ''X'',
                               c32 CHR ''Y'', c32 CHR ''Z'']
       then Category_Number_DecimalDigit
     else if character = c32 CHR ''_''
       then Category_Punctuation_Connector
     else if character \<in> set [c32 CHR ''^'', c32 CHR ''`'']
       then Category_Symbol_Modifier
     else if character \<in> set [c32 CHR ''a'', c32 CHR ''b'', c32 CHR ''c'', c32 CHR ''d'',
                               c32 CHR ''e'', c32 CHR ''f'', c32 CHR ''g'', c32 CHR ''h'',
                               c32 CHR ''i'', c32 CHR ''j'', c32 CHR ''k'', c32 CHR ''l'',
                               c32 CHR ''m'', c32 CHR ''n'', c32 CHR ''o'', c32 CHR ''p'',
                               c32 CHR ''q'', c32 CHR ''r'', c32 CHR ''s'', c32 CHR ''t'',
                               c32 CHR ''u'', c32 CHR ''v'', c32 CHR ''w'', c32 CHR ''x'',
                               c32 CHR ''y'', c32 CHR ''z'']
       then Category_Number_DecimalDigit
     else Category_NoCategory)"

text \<open>
  \<^verbatim>\<open>character + ('A' - 'a')\<close>: the difference is the \<^verbatim>\<open>int\<close> -32, converted to
  unsigned for the addition, which wraps at \<open>2 ^ 32\<close>.
\<close>

definition GetUppercase :: "char32_t \<Rightarrow> char32_t" where
  "GetUppercase character =
    (if character \<ge> c32 CHR ''a'' \<and> character \<le> c32 CHR ''z''
     then character + (c32 CHR ''A'' - c32 CHR ''a'')
     else character)"

definition GetTitlecase :: "char32_t \<Rightarrow> char32_t" where
  "GetTitlecase character = GetUppercase character"

section \<open>Faults\<close>

text \<open>
  What stops a call instead of returning: a failed \<^verbatim>\<open>assert\<close>, the dereference
  of a null pointer, \<^verbatim>\<open>std::length_error\<close> thrown by \<^verbatim>\<open>std::string::resize\<close>, the
  violation of a precondition that the spec describes as a hard stop, a read
  beyond the bytes a pointer points to, and a division by zero.
  A function that can stop so returns \<open>fault + 'a\<close>.
\<close>

datatype fault =
    AssertionFailed
  | NullPointerDereference
  | LengthError
  | PreconditionViolation
  | OutOfBoundsRead
  | DivisionByZero

section \<open>Buffer: the inline accessors\<close>

text \<open>
  \<^verbatim>\<open>Buffer.inl\<close>. \<^verbatim>\<open>m_impl\<close> is a \<^verbatim>\<open>std::unique_ptr<AbstractBuffer>\<close>: \<open>None\<close> is
  the null pointer. Of the implementation object only what its virtual
  \<^verbatim>\<open>GetStorage\<close> returns is kept.
\<close>

text \<open>
  Modelled from the spec: the enumerations \<^verbatim>\<open>DataStorage\<close> and \<^verbatim>\<open>BufferType\<close> are
  declared in \<^verbatim>\<open>Enums.hpp\<close>, which is not part of the sources; the spec names the
  storage modes software and hardware and the types vertex and index.
\<close>

datatype DataStorage = DataStorage_Hardware | DataStorage_Software

datatype BufferType = BufferType_Index | BufferType_Vertex

record AbstractBuffer =
  impl_storage :: DataStorage

record Buffer =
  m_impl :: "AbstractBuffer option"
  m_size :: "32 word"
  m_type :: BufferType
  m_usage :: "32 word"

definition GetImpl :: "Buffer \<Rightarrow> AbstractBuffer option" where
  "GetImpl b = m_impl b"

definition GetSize :: "Buffer \<Rightarrow> 32 word" where
  "GetSize b = m_size b"

definition GetStorage :: "Buffer \<Rightarrow> fault + DataStorage" where
  "GetStorage b =
    (case m_impl b of
       None \<Rightarrow> Inl NullPointerDereference
     | Some impl \<Rightarrow> Inr (impl_storage impl))"

definition HasStorage :: "Buffer \<Rightarrow> DataStorage \<Rightarrow> fault + bool" where
  "HasStorage b storage =
    (case GetStorage b of
       Inl f \<Rightarrow> Inl f
     | Inr s \<Rightarrow> Inr (s = storage))"

definition IsValid :: "Buffer \<Rightarrow> bool" where
  "IsValid b = (m_impl b \<noteq> None)"

section \<open>VertexDeclaration: looking a component up\<close>

text \<open>
  \<^verbatim>\<open>VertexDeclaration.inl\<close>. A returned \<^verbatim>\<open>const Component*\<close> is an option: \<open>None\<close>
  is \<^verbatim>\<open>nullptr\<close>, \<open>Some c\<close> points to the element \<open>c\<close> of \<^verbatim>\<open>m_components\<close>.
  The \<^verbatim>\<open>assert\<close> is the one of a build with assertions enabled.
\<close>

text \<open>
  Modelled from the spec: the enumerations \<^verbatim>\<open>VertexComponent\<close>, \<^verbatim>\<open>ComponentType\<close>
  and \<^verbatim>\<open>VertexInputRate\<close> and the structure \<^verbatim>\<open>Component\<close> are declared in
  \<^verbatim>\<open>Enums.hpp\<close> and \<^verbatim>\<open>VertexDeclaration.hpp\<close>, which are not part of the sources.
  The spec names the position, colour, tangent and user-data components, the
  per-vertex and per-instance rates, and the fields of a component: semantic
  component, component index, type and byte offset. The component type is
  left as a type parameter.
\<close>

datatype VertexComponent =
    VertexComponent_Color
  | VertexComponent_Position
  | VertexComponent_Tangent
  | VertexComponent_Userdata

datatype VertexInputRate = VertexInputRate_Instance | VertexInputRate_Vertex

record 'ty Component =
  component :: VertexComponent
  componentIndex :: nat
  type :: 'ty
  offset :: nat

record 'ty VertexDeclaration =
  m_components :: "'ty Component list"
  m_stride :: nat
  m_inputRate :: VertexInputRate

text \<open>The range-based \<^verbatim>\<open>for\<close> loop over \<^verbatim>\<open>m_components\<close>, with its early return.\<close>

fun FindComponent_scan ::
  "'ty Component list \<Rightarrow> VertexComponent \<Rightarrow> nat \<Rightarrow> 'ty Component option" where
  "FindComponent_scan [] vertexComponent componentIdx = None"
| "FindComponent_scan (c # cs) vertexComponent componentIdx =
    (if component c = vertexComponent \<and> componentIndex c = componentIdx
     then Some c
     else FindComponent_scan cs vertexComponent componentIdx)"

definition FindComponent ::
  "'ty VertexDeclaration \<Rightarrow> VertexComponent \<Rightarrow> nat \<Rightarrow> fault + 'ty Component option" where
  "FindComponent d vertexComponent componentIdx =
    (if \<not> (componentIdx = 0 \<or> vertexComponent = VertexComponent_Userdata)
     then Inl AssertionFailed
     else Inr (FindComponent_scan (m_components d) vertexComponent componentIdx))"

definition GetComponentCount :: "'ty VertexDeclaration \<Rightarrow> nat" where
  "GetComponentCount d = length (m_components d)"

definition GetStride :: "'ty VertexDeclaration \<Rightarrow> nat" where
  "GetStride d = m_stride d"

definition HasComponent ::
  "'ty VertexDeclaration \<Rightarrow> VertexComponent \<Rightarrow> nat \<Rightarrow> fault + bool" where
  "HasComponent d vertexComponent componentIdx =
    (case FindComponent d vertexComponent componentIdx of
       Inl f \<Rightarrow> Inl f
     | Inr r \<Rightarrow> Inr (r \<noteq> None))"

section \<open>Vk::Image: binding memory\<close>

text \<open>
  \<^verbatim>\<open>VkImage.inl\<close>. Handles and sizes are 64-bit values, a \<^verbatim>\<open>VkResult\<close> is an
  integer and \<^verbatim>\<open>VK_SUCCESS\<close> is 0, as \<^verbatim>\<open>vulkan.h\<close> has them. The device is known
  by its function table: \<open>vkBindImageMemory\<close> is the result code the native
  entry point gives for an image, a memory and an offset. \<^verbatim>\<open>m_device\<close> is a handle
  that may be null (\<open>None\<close>). The message passed to \<^verbatim>\<open>NazaraError\<close> goes to the
  log and is not part of the state.
\<close>

type_synonym VkResult = int
type_synonym VkImage = "64 word"
type_synonym VkDeviceMemory = "64 word"
type_synonym VkDeviceSize = "64 word"

definition VK_SUCCESS :: VkResult where
  "VK_SUCCESS = 0"

record Device =
  vkBindImageMemory :: "VkImage \<Rightarrow> VkDeviceMemory \<Rightarrow> VkDeviceSize \<Rightarrow> VkResult"

text \<open>
  Modelled from the spec: the members \<^verbatim>\<open>m_device\<close>, \<^verbatim>\<open>m_handle\<close> and
  \<^verbatim>\<open>m_lastErrorCode\<close> that \<^verbatim>\<open>BindImageMemory\<close> uses are declared by the
  device-object template, which is not part of the sources; the spec describes
  them as the owning device, the native handle and the stored native error
  code.
\<close>

record Image =
  m_device :: "Device option"
  m_handle :: VkImage
  m_lastErrorCode :: VkResult

definition BindImageMemory ::
  "Image \<Rightarrow> VkDeviceMemory \<Rightarrow> VkDeviceSize \<Rightarrow> fault + (bool \<times> Image)" where
  "BindImageMemory img memory ofs =
    (case m_device img of
       None \<Rightarrow> Inl NullPointerDereference
     | Some dev \<Rightarrow>
        (let img' = img\<lparr>m_lastErrorCode := vkBindImageMemory dev (m_handle img) memory ofs\<rparr>
         in if m_lastErrorCode img' \<noteq> VK_SUCCESS
            then Inr (False, img')
            else Inr (True, img')))"

text \<open>
  Modelled from the spec: the last-error accessor of the device-object template
  (not part of the sources) gives the stored native error code.
\<close>

definition GetLastErrorCode :: "Image \<Rightarrow> VkResult" where
  "GetLastErrorCode img = m_lastErrorCode img"

section \<open>GL::Shader\<close>

text \<open>
  \<^verbatim>\<open>Shader.inl\<close>. A \<^verbatim>\<open>GLuint\<close> or \<^verbatim>\<open>GLenum\<close> is a 32-bit value, a \<^verbatim>\<open>GLint\<close> an
  integer. An \<^verbatim>\<open>OpenGLDevice\<close> is known by a number; the world maps it to the
  function table of its reference context and records, in order, every native
  call the wrapper makes. The function table is a parameter: for each entry
  point that returns something, what it returns.
  \<^item> \<open>glCreateShader\<close>: the handle returned for a stage type;
  \<^item> \<open>compileStatus\<close>, \<open>infoLogLength\<close>: what \<^verbatim>\<open>glGetShaderiv\<close> stores for
    \<^verbatim>\<open>GL_COMPILE_STATUS\<close> and \<^verbatim>\<open>GL_INFO_LOG_LENGTH\<close>;
  \<^item> \<open>glGetShaderInfoLog\<close>: the characters the driver writes for a buffer size.
  The driver writes into the buffer it is given and never beyond the size it is
  told: \<open>write_chars\<close> lays the characters over the beginning of the buffer.
\<close>

type_synonym GLuint = "32 word"
type_synonym GLenum = "32 word"
type_synonym GLint = int

datatype gl_call =
    Call_glCompileShader GLuint
  | Call_glCreateShader GLenum
  | Call_glDeleteShader GLuint
  | Call_glGetShaderiv_COMPILE_STATUS GLuint
  | Call_glGetShaderiv_INFO_LOG_LENGTH GLuint
  | Call_glGetShaderInfoLog GLuint nat

record Context =
  glCreateShader :: "GLenum \<Rightarrow> GLuint"
  compileStatus :: "GLuint \<Rightarrow> GLint"
  infoLogLength :: "GLuint \<Rightarrow> GLint"
  glGetShaderInfoLog :: "GLuint \<Rightarrow> nat \<Rightarrow> string"

record World =
  GetReferenceContext :: "nat \<Rightarrow> Context"
  calls :: "(nat \<times> gl_call) list"

definition native :: "World \<Rightarrow> nat \<Rightarrow> gl_call \<Rightarrow> World" where
  "native w dev c = w\<lparr>calls := calls w @ [(dev, c)]\<rparr>"

text \<open>
  Modelled from the spec: the members of \<^verbatim>\<open>Shader\<close> are declared in
  \<^verbatim>\<open>Shader.hpp\<close>, which is not part of the sources; the spec describes them as
  the native shader handle and the back-reference to the owning device.
\<close>

record Shader =
  m_device :: "nat option"
  m_shader :: GLuint

text \<open>\<^verbatim>\<open>std::string::resize\<close>: cut, or filled up with the null character.\<close>

definition resize :: "string \<Rightarrow> nat \<Rightarrow> string" where
  "resize s n = take n s @ replicate (n - length s) (CHR 0x00)"

definition write_chars :: "string \<Rightarrow> nat \<Rightarrow> string \<Rightarrow> string" where
  "write_chars written bufSize buf =
    (let w = take (min bufSize (length buf)) written
     in w @ drop (length w) buf)"

definition Compile ::
  "Shader \<Rightarrow> World \<Rightarrow> string option \<Rightarrow> fault + (bool \<times> string option \<times> World)" where
  "Compile sh w error =
    (if m_shader sh = 0 then Inl AssertionFailed
     else case Shader.m_device sh of
       None \<Rightarrow> Inl NullPointerDereference
     | Some dev \<Rightarrow>
        (let context = GetReferenceContext w dev;
             w1 = native w dev (Call_glCompileShader (m_shader sh));
             success = compileStatus context (m_shader sh);
             w2 = native w1 dev (Call_glGetShaderiv_COMPILE_STATUS (m_shader sh))
         in if success = 0 then
              (case error of
                 None \<Rightarrow> Inr (False, None, w2)
               | Some e \<Rightarrow>
                  (let logLength = infoLogLength context (m_shader sh);
                       w3 = native w2 dev (Call_glGetShaderiv_INFO_LOG_LENGTH (m_shader sh))
                   in if logLength < 0 then Inl LengthError
                      else
                       (let e1 = resize e (nat logLength)
                        in if logLength > 0
                           then Inr (False,
                                     Some (write_chars
                                            (glGetShaderInfoLog context (m_shader sh) (nat logLength))
                                            (nat logLength) e1),
                                     native w3 dev
                                       (Call_glGetShaderInfoLog (m_shader sh) (nat logLength)))
                           else Inr (False, Some e1, w3))))
            else Inr (True, error, w2)))"

definition Destroy :: "Shader \<Rightarrow> World \<Rightarrow> fault + (Shader \<times> World)" where
  "Destroy sh w =
    (if m_shader sh \<noteq> 0 then
       (case Shader.m_device sh of
          None \<Rightarrow> Inl NullPointerDereference
        | Some dev \<Rightarrow>
            Inr (sh\<lparr>m_shader := 0\<rparr>, native w dev (Call_glDeleteShader (m_shader sh))))
     else Inr (sh, w))"

definition Create :: "Shader \<Rightarrow> World \<Rightarrow> nat \<Rightarrow> GLenum \<Rightarrow> fault + (bool \<times> Shader \<times> World)" where
  "Create sh w device ty =
    (case Destroy sh w of
       Inl f \<Rightarrow> Inl f
     | Inr (sh1, w1) \<Rightarrow>
        (let sh2 = sh1\<lparr>Shader.m_device := Some device\<rparr>;
             sh3 = sh2\<lparr>m_shader := glCreateShader (GetReferenceContext w1 device) ty\<rparr>;
             w2 = native w1 device (Call_glCreateShader ty)
         in if m_shader sh3 = 0
            then Inr (False, sh3, w2)
            else Inr (True, sh3, w2)))"

section \<open>Vk::DeviceMemory: the mapped pointer\<close>

text \<open>
  The header \<^verbatim>\<open>DeviceMemory.hpp\<close> declares the class: the operations
  \<^verbatim>\<open>Create\<close>, \<^verbatim>\<open>GetMappedPointer\<close>, \<^verbatim>\<open>Map\<close> and \<^verbatim>\<open>Unmap\<close>, the member
  \<^verbatim>\<open>m_mappedPtr\<close>, and the base \<^verbatim>\<open>DeviceObject\<close> that brings the handle, the last
  error code and \<^verbatim>\<open>Destroy\<close>. A pointer is a 64-bit value and 0 is null. What
  the native calls answer is an argument of the operation: the result code,
  and the handle or the pointer they give on success.
\<close>












section \<open>Buffer: filling and mapping\<close>

text \<open>
  The header \<^verbatim>\<open>VertexBuffer.hpp\<close> declares \<^verbatim>\<open>Fill\<close>, \<^verbatim>\<open>Map\<close> and \<^verbatim>\<open>Unmap\<close>, which
  forward to the \<^verbatim>\<open>NzBuffer\<close> they view. A byte is an 8-bit value; the storage of
  the backend implementation is the list of its bytes, \<open>None\<close> when the buffer
  has no implementation. A mapped pointer is the position in the storage it
  points to, and \<open>None\<close> is the null pointer.
\<close>

text \<open>
  Modelled from the spec: the class \<^verbatim>\<open>NzBuffer\<close> (\<^verbatim>\<open>Buffer.hpp\<close> and
  \<^verbatim>\<open>Buffer.cpp\<close> are not part of the sources) owns at most one backend
  implementation, has a declared byte size, and is mapped or not.
\<close>

record NzBuffer =
  nz_impl :: "8 word list option"
  nz_size :: nat
  nz_mapped :: bool

text \<open>
  Modelled from the spec: \<^verbatim>\<open>NzBuffer::Fill\<close> (\<^verbatim>\<open>Buffer.cpp\<close> is not part of the
  sources) writes \<open>sz\<close> bytes at \<open>ofs\<close>; it fails if the buffer has no
  implementation, if \<open>ofs + sz\<close> exceeds the declared size, or if the
  backend rejects the write (\<open>accepts\<close> is the backend's answer). With
  \<open>forceDiscard\<close> the backend may drop the prior contents: the bytes outside
  the written range are then those of \<open>dropped\<close>, the backend's choice.
  \<open>data\<close> holds the bytes the source pointer points to; reading \<open>sz\<close>
  bytes from fewer is a fault.
\<close>

definition NzBuffer_Fill ::
  "NzBuffer \<Rightarrow> bool \<Rightarrow> 8 word list \<Rightarrow> 8 word list \<Rightarrow> nat \<Rightarrow> nat \<Rightarrow> bool
     \<Rightarrow> fault + (bool \<times> NzBuffer)" where
  "NzBuffer_Fill b accepts dropped data ofs sz forceDiscard =
    (case nz_impl b of
       None \<Rightarrow> Inr (False, b)
     | Some bytes \<Rightarrow>
        if ofs + sz > nz_size b then Inr (False, b)
        else if length data < sz then Inl OutOfBoundsRead
        else if \<not> accepts then Inr (False, b)
        else
         (let prior = (if forceDiscard then take (length bytes) dropped
                                            @ drop (length dropped) bytes
                       else bytes)
          in Inr (True,
                  b\<lparr>nz_impl := Some (take ofs prior @ take sz data @ drop (ofs + sz) prior)\<rparr>)))"

text \<open>
  Modelled from the spec: \<^verbatim>\<open>NzBuffer::Map\<close> and \<^verbatim>\<open>NzBuffer::Unmap\<close> (not part of
  the sources). \<^verbatim>\<open>Map\<close> returns a pointer valid until the matching \<^verbatim>\<open>Unmap\<close>; a
  buffer with no implementation rejects the call, and so does a range beyond
  the declared size; \<^verbatim>\<open>Map\<close> while mapped and \<^verbatim>\<open>Unmap\<close> while not mapped are
  contract violations.
\<close>

definition NzBuffer_Map :: "NzBuffer \<Rightarrow> nat \<Rightarrow> nat \<Rightarrow> fault + (nat option \<times> NzBuffer)" where
  "NzBuffer_Map b ofs sz =
    (case nz_impl b of
       None \<Rightarrow> Inr (None, b)
     | Some bytes \<Rightarrow>
        if nz_mapped b then Inl PreconditionViolation
        else if ofs + sz > nz_size b then Inr (None, b)
        else Inr (Some ofs, b\<lparr>nz_mapped := True\<rparr>))"

definition NzBuffer_Unmap :: "NzBuffer \<Rightarrow> fault + NzBuffer" where
  "NzBuffer_Unmap b =
    (if \<not> nz_mapped b then Inl PreconditionViolation
     else Inr (b\<lparr>nz_mapped := False\<rparr>))"

text \<open>
  Modelled from the spec: what a caller observes through a mapped pointer, the
  \<open>n\<close> bytes of the storage from the position it points to. Reading beyond
  the storage, or with no mapping, is a fault.
\<close>

definition read_mapped :: "NzBuffer \<Rightarrow> nat \<Rightarrow> nat \<Rightarrow> fault + 8 word list" where
  "read_mapped b ptr n =
    (case nz_impl b of
       None \<Rightarrow> Inl NullPointerDereference
     | Some bytes \<Rightarrow>
        if \<not> nz_mapped b then Inl PreconditionViolation
        else if ptr + n > length bytes then Inl OutOfBoundsRead
        else Inr (take n (drop ptr bytes)))"

section \<open>VertexBuffer: the window and the vertex count\<close>

text \<open>
  The header \<^verbatim>\<open>VertexBuffer.hpp\<close> declares the constructor over a window of a
  buffer, the members \<^verbatim>\<open>m_startOffset\<close>, \<^verbatim>\<open>m_endOffset\<close> and \<^verbatim>\<open>m_vertexCount\<close>, all
  \<^verbatim>\<open>unsigned int\<close>, and their accessors. The declaration is kept by its stride.
\<close>

record NzVertexBuffer =
  m_buffer :: NzBuffer
  m_vertexDeclaration_stride :: "32 word"
  m_endOffset :: "32 word"
  m_startOffset :: "32 word"
  m_vertexCount :: "32 word"

text \<open>
  Modelled from the spec: the constructor of \<^verbatim>\<open>NzVertexBuffer\<close>
  (\<^verbatim>\<open>VertexBuffer.cpp\<close> is not part of the sources). The window length
  \<open>endOffset - startOffset\<close> must be a multiple of the declaration's stride,
  or the construction fails; the vertex count is the window length divided by
  the stride. With a stride of zero there is no quotient.
\<close>

definition NzVertexBuffer_new ::
  "32 word \<Rightarrow> NzBuffer \<Rightarrow> 32 word \<Rightarrow> 32 word \<Rightarrow> fault + NzVertexBuffer" where
  "NzVertexBuffer_new stride buffer startOffset endOffset =
    (if stride = 0 then Inl DivisionByZero
     else if (endOffset - startOffset) mod stride \<noteq> 0 then Inl PreconditionViolation
     else Inr \<lparr>m_buffer = buffer,
               m_vertexDeclaration_stride = stride,
               m_endOffset = endOffset,
               m_startOffset = startOffset,
               m_vertexCount = (endOffset - startOffset) div stride\<rparr>)"

text \<open>
  Modelled from the spec: the accessors of \<^verbatim>\<open>NzVertexBuffer\<close> (not part of the
  sources) report the members.
\<close>

definition GetVertexCount :: "NzVertexBuffer \<Rightarrow> 32 word" where
  "GetVertexCount vb = m_vertexCount vb"

definition GetStartOffset :: "NzVertexBuffer \<Rightarrow> 32 word" where
  "GetStartOffset vb = m_startOffset vb"

definition GetEndOffset :: "NzVertexBuffer \<Rightarrow> 32 word" where
  "GetEndOffset vb = m_endOffset vb"

section \<open>Concrete inputs\<close>

text \<open>
  The inputs at which the theorems below are instantiated: a buffer with a
  hardware implementation and one with none; the layout with a position at
  offset 0 and a colour at offset 12, of stride 16; an image on a device whose
  bind call succeeds at offset 0 only; a shader of handle 5 on device 0, in a
  world whose driver reports a given compile status, creates a given handle
  and holds the three-character log \<open>bad\<close> with its terminator, and in a world
  whose driver reports a failed compilation with the log length -1.
\<close>

definition example_buffer :: Buffer where
  "example_buffer =
    \<lparr>m_impl = Some \<lparr>impl_storage = DataStorage_Hardware\<rparr>, m_size = 256,
     m_type = BufferType_Vertex, m_usage = 0\<rparr>"

definition example_buffer_no_impl :: Buffer where
  "example_buffer_no_impl =
    \<lparr>m_impl = None, m_size = 0, m_type = BufferType_Index, m_usage = 0\<rparr>"

definition example_declaration :: "unit VertexDeclaration" where
  "example_declaration =
    \<lparr>m_components =
       [\<lparr>component = VertexComponent_Position, componentIndex = 0, type = (), offset = 0\<rparr>,
        \<lparr>component = VertexComponent_Color, componentIndex = 0, type = (), offset = 12\<rparr>],
     m_stride = 16,
     m_inputRate = VertexInputRate_Vertex\<rparr>"

definition example_device :: Device where
  "example_device =
    \<lparr>vkBindImageMemory = (\<lambda>image memory ofs. if ofs = 0 then 0 else - 2)\<rparr>"

definition example_image :: Image where
  "example_image =
    \<lparr>Image.m_device = Some example_device, m_handle = 7, m_lastErrorCode = 0\<rparr>"

definition example_context :: "GLint \<Rightarrow> GLuint \<Rightarrow> Context" where
  "example_context status created =
    \<lparr>glCreateShader = (\<lambda>ty. created),
     compileStatus = (\<lambda>shader. status),
     infoLogLength = (\<lambda>shader. 4),
     glGetShaderInfoLog =
       (\<lambda>shader bufSize. take bufSize [CHR ''b'', CHR ''a'', CHR ''d'', CHR 0x00])\<rparr>"

definition example_world :: "GLint \<Rightarrow> GLuint \<Rightarrow> World" where
  "example_world status created =
    \<lparr>GetReferenceContext = (\<lambda>dev. example_context status created), calls = []\<rparr>"

definition example_world_negative_length :: World where
  "example_world_negative_length =
    \<lparr>GetReferenceContext = (\<lambda>dev. (example_context 0 5)\<lparr>infoLogLength := (\<lambda>shader. - 1)\<rparr>),
     calls = []\<rparr>"

definition example_shader :: Shader where
  "example_shader = \<lparr>m_device = Some 0, m_shader = 5\<rparr>"

definition example_nzbuffer :: NzBuffer where
  "example_nzbuffer = \<lparr>nz_impl = Some (replicate 8 0), nz_size = 8, nz_mapped = False\<rparr>"

section \<open>Properties of the ASCII table implementation\<close>

lemma upper_letter_cases:
  fixes c :: char32_t
  assumes "c32 CHR ''A'' \<le> c" and "c \<le> c32 CHR ''Z''"
  shows "c \<in> set [c32 CHR ''A'', c32 CHR ''B'', c32 CHR ''C'', c32 CHR ''D'',
                    c32 CHR ''E'', c32 CHR ''F'', c32 CHR ''G'', c32 CHR ''H'',
                    c32 CHR ''I'', c32 CHR ''J'', c32 CHR ''K'', c32 CHR ''L'',
                    c32 CHR ''M'', c32 CHR ''N'', c32 CHR ''O'', c32 CHR ''P'',
                    c32 CHR ''Q'', c32 CHR ''R'', c32 CHR ''S'', c32 CHR ''T'',
                    c32 CHR ''U'', c32 CHR ''V'', c32 CHR ''W'', c32 CHR ''X'',
                    c32 CHR ''Y'', c32 CHR ''Z'']"
proof -
  define n where "n = unat c"
  from assms have "65 \<le> n" "n \<le> 90"
    by (simp_all add: word_le_nat_alt n_def)
  then have "n = 65 \<or> n = 66 \<or> n = 67 \<or> n = 68 \<or> n = 69 \<or> n = 70 \<or> n = 71
      \<or> n = 72 \<or> n = 73 \<or> n = 74 \<or> n = 75 \<or> n = 76 \<or> n = 77 \<or> n = 78 \<or> n = 79
      \<or> n = 80 \<or> n = 81 \<or> n = 82 \<or> n = 83 \<or> n = 84 \<or> n = 85 \<or> n = 86 \<or> n = 87
      \<or> n = 88 \<or> n = 89 \<or> n = 90"
    by arith
  moreover have "c = of_nat n" by (simp add: n_def)
  ultimately show ?thesis by auto
qed

lemma lower_letter_cases:
  fixes c :: char32_t
  assumes "c32 CHR ''a'' \<le> c" and "c \<le> c32 CHR ''z''"
  shows "c \<in> set [c32 CHR ''a'', c32 CHR ''b'', c32 CHR ''c'', c32 CHR ''d'',
                    c32 CHR ''e'', c32 CHR ''f'', c32 CHR ''g'', c32 CHR ''h'',
                    c32 CHR ''i'', c32 CHR ''j'', c32 CHR ''k'', c32 CHR ''l'',
                    c32 CHR ''m'', c32 CHR ''n'', c32 CHR ''o'', c32 CHR ''p'',
                    c32 CHR ''q'', c32 CHR ''r'', c32 CHR ''s'', c32 CHR ''t'',
                    c32 CHR ''u'', c32 CHR ''v'', c32 CHR ''w'', c32 CHR ''x'',
                    c32 CHR ''y'', c32 CHR ''z'']"
proof -
  define n where "n = unat c"
  from assms have "97 \<le> n" "n \<le> 122"
    by (simp_all add: word_le_nat_alt n_def)
  then have "n = 97 \<or> n = 98 \<or> n = 99 \<or> n = 100 \<or> n = 101 \<or> n = 102
      \<or> n = 103 \<or> n = 104 \<or> n = 105 \<or> n = 106 \<or> n = 107 \<or> n = 108 \<or> n = 109
      \<or> n = 110 \<or> n = 111 \<or> n = 112 \<or> n = 113 \<or> n = 114 \<or> n = 115 \<or> n = 116
      \<or> n = 117 \<or> n = 118 \<or> n = 119 \<or> n = 120 \<or> n = 121 \<or> n = 122"
    by arith
  moreover have "c = of_nat n" by (simp add: n_def)
  ultimately show ?thesis by auto
qed

lemma digit_cases:
  fixes c :: char32_t
  assumes "c32 CHR ''0'' \<le> c" and "c \<le> c32 CHR ''9''"
  shows "c \<in> set [c32 CHR ''0'', c32 CHR ''1'', c32 CHR ''2'', c32 CHR ''3'',
                    c32 CHR ''4'', c32 CHR ''5'', c32 CHR ''6'', c32 CHR ''7'',
                    c32 CHR ''8'', c32 CHR ''9'']"
proof -
  define n where "n = unat c"
  from assms have "48 \<le> n" "n \<le> 57"
    by (simp_all add: word_le_nat_alt n_def)
  then have "n = 48 \<or> n = 49 \<or> n = 50 \<or> n = 51 \<or> n = 52 \<or> n = 53 \<or> n = 54
      \<or> n = 55 \<or> n = 56 \<or> n = 57"
    by arith
  moreover have "c = of_nat n" by (simp add: n_def)
  ultimately show ?thesis by auto
qed

lemma GetCategory_upper_table:
  "\<forall>c \<in> set [c32 CHR ''A'', c32 CHR ''B'', c32 CHR ''C'', c32 CHR ''D'',
               c32 CHR ''E'', c32 CHR ''F'', c32 CHR ''G'', c32 CHR ''H'',
               c32 CHR ''I'', c32 CHR ''J'', c32 CHR ''K'', c32 CHR ''L'',
               c32 CHR ''M'', c32 CHR ''N'', c32 CHR ''O'', c32 CHR ''P'',
               c32 CHR ''Q'', c32 CHR ''R'', c32 CHR ''S'', c32 CHR ''T'',
               c32 CHR ''U'', c32 CHR ''V'', c32 CHR ''W'', c32 CHR ''X'',
               c32 CHR ''Y'', c32 CHR ''Z''].
     GetCategory c = Category_Number_DecimalDigit"
  by (simp add: GetCategory_def)

lemma GetCategory_lower_table:
  "\<forall>c \<in> set [c32 CHR ''a'', c32 CHR ''b'', c32 CHR ''c'', c32 CHR ''d'',
               c32 CHR ''e'', c32 CHR ''f'', c32 CHR ''g'', c32 CHR ''h'',
               c32 CHR ''i'', c32 CHR ''j'', c32 CHR ''k'', c32 CHR ''l'',
               c32 CHR ''m'', c32 CHR ''n'', c32 CHR ''o'', c32 CHR ''p'',
               c32 CHR ''q'', c32 CHR ''r'', c32 CHR ''s'', c32 CHR ''t'',
               c32 CHR ''u'', c32 CHR ''v'', c32 CHR ''w'', c32 CHR ''x'',
               c32 CHR ''y'', c32 CHR ''z''].
     GetCategory c = Category_Number_DecimalDigit"
  by (simp add: GetCategory_def)

lemma GetCategory_digit_table:
  "\<forall>c \<in> set [c32 CHR ''0'', c32 CHR ''1'', c32 CHR ''2'', c32 CHR ''3'',
               c32 CHR ''4'', c32 CHR ''5'', c32 CHR ''6'', c32 CHR ''7'',
               c32 CHR ''8'', c32 CHR ''9''].
     GetCategory c = Category_Number_DecimalDigit"
  by (simp add: GetCategory_def)

lemma GetCategory_upper:
  assumes "c32 CHR ''A'' \<le> c" and "c \<le> c32 CHR ''Z''"
  shows "GetCategory c = Category_Number_DecimalDigit"
  using upper_letter_cases [OF assms] GetCategory_upper_table by blast

lemma GetCategory_lower:
  assumes "c32 CHR ''a'' \<le> c" and "c \<le> c32 CHR ''z''"
  shows "GetCategory c = Category_Number_DecimalDigit"
  using lower_letter_cases [OF assms] GetCategory_lower_table by blast

lemma GetCategory_digit:
  assumes "c32 CHR ''0'' \<le> c" and "c \<le> c32 CHR ''9''"
  shows "GetCategory c = Category_Number_DecimalDigit"
  using digit_cases [OF assms] GetCategory_digit_table by blast

text \<open>
  Claim C8. In the ASCII implementation the title case of every character is its
  upper case: \<open>GetTitlecase\<close> returns what \<open>GetUppercase\<close> returns.
\<close>

theorem GetTitlecase_eq_GetUppercase:
  "GetTitlecase c = GetUppercase c"
  by (simp add: GetTitlecase_def)

text \<open>
  Claim C9. In the ASCII implementation every character of \<open>'A'..'Z'\<close> and of
  \<open>'a'..'z'\<close> has the category \<open>Category_Number_DecimalDigit\<close>, the category
  that the decimal digits \<open>'0'..'9'\<close> have.
\<close>

theorem GetCategory_letters_are_digits:
  assumes "(c32 CHR ''A'' \<le> c \<and> c \<le> c32 CHR ''Z'') \<or> (c32 CHR ''a'' \<le> c \<and> c \<le> c32 CHR ''z'')"
    and "c32 CHR ''0'' \<le> d \<and> d \<le> c32 CHR ''9''"
  shows "GetCategory c = Category_Number_DecimalDigit \<and> GetCategory d = GetCategory c"
proof -
  have c: "GetCategory c = Category_Number_DecimalDigit"
    using assms(1) GetCategory_upper GetCategory_lower by blast
  have "GetCategory d = Category_Number_DecimalDigit"
    using assms(2) GetCategory_digit by blast
  with c show ?thesis by simp
qed

theorem GetCategory_letters_are_digits_witness:
  "GetCategory (c32 CHR ''Q'') = Category_Number_DecimalDigit
   \<and> GetCategory (c32 CHR ''7'') = GetCategory (c32 CHR ''Q'')
   \<and> GetCategory (c32 CHR ''k'') = Category_Number_DecimalDigit
   \<and> GetCategory (c32 CHR ''0'') = GetCategory (c32 CHR ''k'')"
  using GetCategory_letters_are_digits [of "c32 CHR ''Q''" "c32 CHR ''7''"]
        GetCategory_letters_are_digits [of "c32 CHR ''k''" "c32 CHR ''0''"]
  by simp

section \<open>Properties of the buffer accessors\<close>

text \<open>
  Claim C10. \<open>GetStorage\<close> and \<open>HasStorage\<close> dereference the implementation
  pointer without a check: they return a storage only on a buffer for which
  \<open>IsValid\<close> holds, and on a buffer with no implementation they dereference a
  null pointer. \<open>IsValid\<close> is total and tells whether an implementation is
  present.
\<close>

theorem Buffer_storage_accessors:
  "IsValid b = (m_impl b \<noteq> None)
   \<and> (IsValid b \<longrightarrow>
        (\<exists>impl. m_impl b = Some impl
           \<and> GetStorage b = Inr (impl_storage impl)
           \<and> HasStorage b storage = Inr (impl_storage impl = storage)))
   \<and> (\<not> IsValid b \<longrightarrow>
        GetStorage b = Inl NullPointerDereference
        \<and> HasStorage b storage = Inl NullPointerDereference)"
  by (cases "m_impl b") (simp_all add: IsValid_def GetStorage_def HasStorage_def)

theorem Buffer_storage_accessors_witness:
  "IsValid example_buffer
   \<and> GetStorage example_buffer = Inr DataStorage_Hardware
   \<and> HasStorage example_buffer DataStorage_Software = Inr False
   \<and> \<not> IsValid example_buffer_no_impl
   \<and> GetStorage example_buffer_no_impl = Inl NullPointerDereference
   \<and> HasStorage example_buffer_no_impl DataStorage_Software = Inl NullPointerDereference"
  using Buffer_storage_accessors [of example_buffer DataStorage_Software]
        Buffer_storage_accessors [of example_buffer_no_impl DataStorage_Software]
  by (simp add: example_buffer_def example_buffer_no_impl_def)

section \<open>Properties of the component lookup\<close>

lemma FindComponent_scan_absent:
  "\<forall>c \<in> set cs. \<not> (component c = vc \<and> componentIndex c = idx)
   \<Longrightarrow> FindComponent_scan cs vc idx = None"
  by (induction cs) auto

lemma FindComponent_scan_present:
  "\<exists>c \<in> set cs. component c = vc \<and> componentIndex c = idx
   \<Longrightarrow> \<exists>c. FindComponent_scan cs vc idx = Some c \<and> c \<in> set cs
            \<and> component c = vc \<and> componentIndex c = idx"
  by (induction cs) auto

text \<open>
  Claim C3. When the component index is 0 or the semantic is user-data,
  \<open>FindComponent\<close> returns null if no component of the declaration has the
  (semantic, index) pair, and a pointer to a component of the declaration with
  that pair if there is one; \<open>HasComponent\<close> answers accordingly. An absent
  pair is an ordinary return, not a fault.
\<close>

theorem FindComponent_null_or_component:
  assumes "idx = 0 \<or> vc = VertexComponent_Userdata"
  shows "((\<forall>c \<in> set (m_components d). \<not> (component c = vc \<and> componentIndex c = idx))
            \<longrightarrow> FindComponent d vc idx = Inr None \<and> HasComponent d vc idx = Inr False)
       \<and> ((\<exists>c \<in> set (m_components d). component c = vc \<and> componentIndex c = idx)
            \<longrightarrow> (\<exists>c. FindComponent d vc idx = Inr (Some c) \<and> c \<in> set (m_components d)
                      \<and> component c = vc \<and> componentIndex c = idx)
                \<and> HasComponent d vc idx = Inr True)"
proof (intro conjI impI)
  assume "\<forall>c \<in> set (m_components d). \<not> (component c = vc \<and> componentIndex c = idx)"
  then have "FindComponent_scan (m_components d) vc idx = None"
    by (rule FindComponent_scan_absent)
  with assms show "FindComponent d vc idx = Inr None" "HasComponent d vc idx = Inr False"
    by (auto simp: FindComponent_def HasComponent_def)
next
  assume "\<exists>c \<in> set (m_components d). component c = vc \<and> componentIndex c = idx"
  then obtain c where c: "FindComponent_scan (m_components d) vc idx = Some c"
      "c \<in> set (m_components d)" "component c = vc" "componentIndex c = idx"
    using FindComponent_scan_present by blast
  with assms show "\<exists>c. FindComponent d vc idx = Inr (Some c) \<and> c \<in> set (m_components d)
                      \<and> component c = vc \<and> componentIndex c = idx"
    by (auto simp: FindComponent_def)
  from c assms show "HasComponent d vc idx = Inr True"
    by (auto simp: FindComponent_def HasComponent_def)
qed

theorem FindComponent_null_or_component_witness:
  "FindComponent example_declaration VertexComponent_Tangent 0 = Inr None
   \<and> HasComponent example_declaration VertexComponent_Tangent 0 = Inr False
   \<and> FindComponent example_declaration VertexComponent_Color 0
       = Inr (Some \<lparr>component = VertexComponent_Color, componentIndex = 0,
                     type = (), offset = 12\<rparr>)
   \<and> HasComponent example_declaration VertexComponent_Color 0 = Inr True"
  using FindComponent_null_or_component [of 0 VertexComponent_Tangent example_declaration]
        FindComponent_null_or_component [of 0 VertexComponent_Color example_declaration]
  by (auto simp: example_declaration_def)

section \<open>Properties of the image wrapper\<close>

text \<open>
  Claim C7. On an image with a device, \<open>BindImageMemory\<close> returns true exactly
  when the native bind call returns \<open>VK_SUCCESS\<close>, and in both cases the
  native result code is the one the last-error accessor gives afterwards.
\<close>

theorem BindImageMemory_result:
  assumes "Image.m_device img = Some dev"
  shows "\<exists>ok img'. BindImageMemory img memory ofs = Inr (ok, img')
           \<and> (ok \<longleftrightarrow> vkBindImageMemory dev (m_handle img) memory ofs = VK_SUCCESS)
           \<and> GetLastErrorCode img' = vkBindImageMemory dev (m_handle img) memory ofs"
  using assms by (simp add: BindImageMemory_def GetLastErrorCode_def Let_def)

theorem BindImageMemory_result_witness:
  "(\<exists>img'. BindImageMemory example_image 3 0 = Inr (True, img')
            \<and> GetLastErrorCode img' = VK_SUCCESS)
   \<and> (\<exists>img'. BindImageMemory example_image 3 16 = Inr (False, img')
            \<and> GetLastErrorCode img' = - 2)"
  using BindImageMemory_result [of example_image example_device 3 0]
        BindImageMemory_result [of example_image example_device 3 16]
  by (auto simp: example_image_def example_device_def VK_SUCCESS_def)

section \<open>Properties of the shader wrapper\<close>

lemma length_resize: "length (resize s n) = n"
  by (simp add: resize_def)

lemma length_write_chars: "length (write_chars written bufSize buf) = length buf"
  by (simp add: write_chars_def Let_def)

lemma write_chars_full:
  "length written = length buf \<Longrightarrow> length buf \<le> bufSize
   \<Longrightarrow> write_chars written bufSize buf = written"
  by (simp add: write_chars_def Let_def)

lemma Compile_success:
  assumes "m_shader sh \<noteq> 0" and "Shader.m_device sh = Some dev"
    and "compileStatus (GetReferenceContext w dev) (m_shader sh) \<noteq> 0"
  shows "\<exists>w'. Compile sh w error = Inr (True, error, w')"
  using assms by (simp add: Compile_def Let_def)

lemma Compile_failure_null:
  assumes "m_shader sh \<noteq> 0" and "Shader.m_device sh = Some dev"
    and "compileStatus (GetReferenceContext w dev) (m_shader sh) = 0"
  shows "\<exists>w'. Compile sh w None = Inr (False, None, w')"
  using assms by (simp add: Compile_def Let_def)

lemma Compile_failure_log:
  assumes "m_shader sh \<noteq> 0" and "Shader.m_device sh = Some dev"
    and "compileStatus (GetReferenceContext w dev) (m_shader sh) = 0"
    and "0 \<le> infoLogLength (GetReferenceContext w dev) (m_shader sh)"
  shows "\<exists>w'. Compile sh w (Some e)
           = Inr (False,
                  Some (write_chars
                         (glGetShaderInfoLog (GetReferenceContext w dev) (m_shader sh)
                            (nat (infoLogLength (GetReferenceContext w dev) (m_shader sh))))
                         (nat (infoLogLength (GetReferenceContext w dev) (m_shader sh)))
                         (resize e (nat (infoLogLength (GetReferenceContext w dev) (m_shader sh))))),
                  w')"
proof (cases "infoLogLength (GetReferenceContext w dev) (m_shader sh) > 0")
  case True
  with assms show ?thesis by (simp add: Compile_def Let_def)
next
  case False
  with assms(4) have "infoLogLength (GetReferenceContext w dev) (m_shader sh) = 0" by simp
  with assms show ?thesis by (simp add: Compile_def Let_def resize_def write_chars_def)
qed

lemma Compile_negative_length:
  assumes "m_shader sh \<noteq> 0" and "Shader.m_device sh = Some dev"
    and "compileStatus (GetReferenceContext w dev) (m_shader sh) = 0"
    and "infoLogLength (GetReferenceContext w dev) (m_shader sh) < 0"
  shows "Compile sh w (Some e) = Inl LengthError"
  using assms by (simp add: Compile_def Let_def)

text \<open>
  Claim C5, as the code has it. On a shader with a non-null handle (and so
  with a device): if the native compilation succeeds, \<open>Compile\<close> returns true
  and the error string is as it was; if it fails and the error pointer is
  null, \<open>Compile\<close> returns false and the pointer stays null; if it fails, the
  error pointer is not null and the log length the driver reports is not
  negative, \<open>Compile\<close> returns false and the error string has the reported log
  length (zero included) and holds what the driver wrote as the log, which is
  the whole string when the driver writes as many characters as it reported.
\<close>

theorem Compile_result:
  assumes "m_shader sh \<noteq> 0"
    and "Shader.m_device sh = Some dev"
  shows "let context = GetReferenceContext w dev;
             logLength = infoLogLength context (m_shader sh);
             log = glGetShaderInfoLog context (m_shader sh) (nat logLength)
         in (compileStatus context (m_shader sh) \<noteq> 0
               \<longrightarrow> (\<exists>w'. Compile sh w error = Inr (True, error, w')))
          \<and> (compileStatus context (m_shader sh) = 0 \<and> error = None
               \<longrightarrow> (\<exists>w'. Compile sh w error = Inr (False, None, w')))
          \<and> (compileStatus context (m_shader sh) = 0 \<and> 0 \<le> logLength
               \<longrightarrow> (\<forall>e. error = Some e \<longrightarrow>
                      (\<exists>e' w'. Compile sh w error = Inr (False, Some e', w')
                         \<and> length e' = nat logLength
                         \<and> e' = write_chars log (nat logLength) (resize e (nat logLength))
                         \<and> (length log = nat logLength \<longrightarrow> e' = log))))"
proof -
  define ctx where "ctx = GetReferenceContext w dev"
  define logLength where "logLength = infoLogLength ctx (m_shader sh)"
  define log where "log = glGetShaderInfoLog ctx (m_shader sh) (nat logLength)"
  have ok: "\<exists>w'. Compile sh w error = Inr (True, error, w')"
    if "compileStatus ctx (m_shader sh) \<noteq> 0"
    using Compile_success [OF assms(1,2)] that by (simp add: ctx_def)
  have null: "\<exists>w'. Compile sh w error = Inr (False, None, w')"
    if "compileStatus ctx (m_shader sh) = 0 \<and> error = None"
    using Compile_failure_null [OF assms(1,2)] that by (simp add: ctx_def)
  have ko: "\<exists>e' w'. Compile sh w error = Inr (False, Some e', w')
              \<and> length e' = nat logLength
              \<and> e' = write_chars log (nat logLength) (resize e (nat logLength))
              \<and> (length log = nat logLength \<longrightarrow> e' = log)"
    if fail: "compileStatus ctx (m_shader sh) = 0 \<and> 0 \<le> logLength" and some: "error = Some e"
    for e
  proof -
    define e' where "e' = write_chars log (nat logLength) (resize e (nat logLength))"
    have len: "length e' = nat logLength"
      by (simp add: e'_def length_write_chars length_resize)
    have full: "e' = log" if "length log = nat logLength"
      unfolding e'_def using that by (intro write_chars_full) (simp_all add: length_resize)
    from fail have "compileStatus (GetReferenceContext w dev) (m_shader sh) = 0"
      and "0 \<le> infoLogLength (GetReferenceContext w dev) (m_shader sh)"
      by (simp_all add: ctx_def logLength_def)
    from Compile_failure_log [OF assms(1,2) this, of e]
    obtain w' where "Compile sh w (Some e) = Inr (False, Some e', w')"
      unfolding e'_def log_def logLength_def ctx_def by blast
    with some len full show ?thesis
      unfolding e'_def by auto
  qed
  from ok null ko show ?thesis
    unfolding Let_def ctx_def logLength_def log_def by blast
qed

theorem Compile_result_witness:
  "(\<exists>w'. Compile example_shader (example_world 1 5) (Some ''x'') = Inr (True, Some ''x'', w'))
   \<and> (\<exists>w'. Compile example_shader (example_world 0 5) None = Inr (False, None, w'))
   \<and> (\<exists>w'. Compile example_shader (example_world 0 5) (Some ''x'')
          = Inr (False, Some [CHR ''b'', CHR ''a'', CHR ''d'', CHR 0x00], w'))"
  using Compile_result [of example_shader 0 "example_world 1 5" "Some ''x''"]
        Compile_result [of example_shader 0 "example_world 0 5" None]
        Compile_result [of example_shader 0 "example_world 0 5" "Some ''x''"]
  by (auto simp: example_shader_def example_world_def example_context_def
        write_chars_def resize_def Let_def)

text \<open>
  Claim C5 as stated fails where the driver reports a negative log length for
  a failed compilation and the error pointer is not null: the handle is not
  null and the compile status is 0, and \<open>Compile\<close> does not return false, it
  stops in \<^verbatim>\<open>std::string::resize\<close> with a length error.
\<close>

theorem Compile_negative_length_counterexample:
  "m_shader example_shader \<noteq> 0
   \<and> compileStatus (GetReferenceContext example_world_negative_length 0)
        (m_shader example_shader) = 0
   \<and> infoLogLength (GetReferenceContext example_world_negative_length 0)
        (m_shader example_shader) = - 1
   \<and> Compile example_shader example_world_negative_length (Some ''x'') = Inl LengthError"
  by (simp add: Compile_def Let_def example_shader_def example_world_negative_length_def
        example_context_def)

text \<open>
  Claim C6. \<open>Create\<close> first deletes the handle the shader holds, if it holds
  one, in the context of the device it was created on, and then asks the
  reference context of the given device for a new shader of the given stage
  type, whose handle it keeps. It returns whether that handle is not null:
  when the native creation returns the null handle, \<open>Create\<close> returns false
  and the shader has no handle.
\<close>

theorem Create_result:
  assumes "m_shader sh = 0 \<or> Shader.m_device sh = Some old"
  shows "\<exists>ok sh' w'. Create sh w device ty = Inr (ok, sh', w')
           \<and> calls w' = calls w
                @ (if m_shader sh \<noteq> 0 then [(old, Call_glDeleteShader (m_shader sh))] else [])
                @ [(device, Call_glCreateShader ty)]
           \<and> m_shader sh' = glCreateShader (GetReferenceContext w device) ty
           \<and> Shader.m_device sh' = Some device
           \<and> ok = (m_shader sh' \<noteq> 0)
           \<and> (glCreateShader (GetReferenceContext w device) ty = 0
                \<longrightarrow> \<not> ok \<and> m_shader sh' = 0)"
proof (cases "m_shader sh = 0")
  case True
  then show ?thesis
    by (simp add: Create_def Destroy_def native_def Let_def)
next
  case False
  with assms have "Shader.m_device sh = Some old" by simp
  with False show ?thesis
    by (simp add: Create_def Destroy_def native_def Let_def)
qed

theorem Create_result_witness:
  "\<exists>sh' w'. Create example_shader (example_world 1 0) 3 0x8B31 = Inr (False, sh', w')
     \<and> m_shader sh' = 0
     \<and> calls w' = [(0, Call_glDeleteShader 5), (3, Call_glCreateShader 0x8B31)]"
  using Create_result [of example_shader 0 "example_world 1 0" 3 "0x8B31"]
  by (auto simp: example_shader_def example_world_def example_context_def)

section \<open>Properties of the mapped pointer of a device memory\<close>





section \<open>Properties of filling and mapping a buffer\<close>

lemma length_overwrite:
  "ofs + sz \<le> length prior \<Longrightarrow> sz \<le> length data
   \<Longrightarrow> length (take ofs prior @ take sz data @ drop (ofs + sz) prior) = length prior"
  by simp

lemma read_overwrite:
  "ofs \<le> length prior \<Longrightarrow> sz \<le> length data
   \<Longrightarrow> take sz (drop ofs (take ofs prior @ take sz data @ rest)) = take sz data"
  by simp

lemma length_discarded:
  "length (take (length bytes) dropped @ drop (length dropped) bytes) = length bytes"
  by simp

lemma Fill_then_Map_succeed:
  assumes "nz_impl b = Some bytes"
    and "length bytes = nz_size b"
    and "ofs + sz \<le> nz_size b"
    and "sz \<le> length data"
    and "\<not> nz_mapped b"
  shows "\<exists>b' b''. NzBuffer_Fill b True dropped data ofs sz forceDiscard = Inr (True, b')
           \<and> NzBuffer_Map b' ofs sz = Inr (Some ofs, b'')
           \<and> read_mapped b'' ofs sz = Inr (take sz data)"
proof -
  define prior where "prior = (if forceDiscard then take (length bytes) dropped
                                            @ drop (length dropped) bytes else bytes)"
  have len: "length prior = nz_size b"
    unfolding prior_def using assms(2) length_discarded [of bytes dropped]
    by (simp only: if_split) simp
  define written where "written = take ofs prior @ take sz data @ drop (ofs + sz) prior"
  define b' where "b' = b\<lparr>nz_impl := Some written\<rparr>"
  have fill: "NzBuffer_Fill b True dropped data ofs sz forceDiscard = Inr (True, b')"
    using assms by (simp add: NzBuffer_Fill_def b'_def written_def prior_def Let_def)
  have map: "NzBuffer_Map b' ofs sz = Inr (Some ofs, b'\<lparr>nz_mapped := True\<rparr>)"
    using assms by (simp add: NzBuffer_Map_def b'_def)
  have bound: "ofs + sz \<le> length prior" using len assms(3) by simp
  then have lw: "length written = length prior"
    unfolding written_def using assms(4) by (rule length_overwrite)
  from bound have "ofs \<le> length prior" by simp
  then have rd: "take sz (drop ofs written) = take sz data"
    unfolding written_def using assms(4) by (rule read_overwrite)
  have "read_mapped (b'\<lparr>nz_mapped := True\<rparr>) ofs sz = Inr (take sz data)"
    using lw bound rd by (simp add: read_mapped_def b'_def)
  with fill map show ?thesis by blast
qed

lemma Fill_True_cases:
  assumes "NzBuffer_Fill b accepts dropped data ofs sz forceDiscard = Inr (True, b')"
  shows "accepts \<and> (\<exists>bytes. nz_impl b = Some bytes) \<and> ofs + sz \<le> nz_size b
         \<and> sz \<le> length data \<and> nz_mapped b' = nz_mapped b"
  using assms
  by (auto simp: NzBuffer_Fill_def Let_def split: option.splits if_splits)

lemma Map_Some_cases:
  assumes "NzBuffer_Map b ofs sz = Inr (Some p, b'')"
  shows "\<not> nz_mapped b \<and> p = ofs"
  using assms by (auto simp: NzBuffer_Map_def split: option.splits if_splits)

text \<open>
  Claim C1. On a buffer whose implementation, if it has one, stores as many
  bytes as the declared size: when \<open>Fill\<close> of \<open>sz\<close> bytes at \<open>ofs\<close> succeeds
  and the \<open>Map\<close> of the same range that follows gives a pointer, the \<open>sz\<close>
  bytes read through that pointer are exactly the bytes written. Both do
  succeed when the buffer has an implementation and is not mapped, the range
  lies within the declared size, the source holds \<open>sz\<close> bytes and the backend
  accepts the write.
\<close>

theorem Fill_then_Map_observes_written:
  assumes "\<forall>bytes. nz_impl b = Some bytes \<longrightarrow> length bytes = nz_size b"
  shows "(\<forall>b' p b''.
            NzBuffer_Fill b accepts dropped data ofs sz forceDiscard = Inr (True, b')
            \<and> NzBuffer_Map b' ofs sz = Inr (Some p, b'')
            \<longrightarrow> read_mapped b'' p sz = Inr (take sz data) \<and> length (take sz data) = sz)
       \<and> (nz_impl b \<noteq> None \<and> \<not> nz_mapped b \<and> ofs + sz \<le> nz_size b \<and> sz \<le> length data
            \<and> accepts
            \<longrightarrow> (\<exists>b' p b''.
                   NzBuffer_Fill b accepts dropped data ofs sz forceDiscard = Inr (True, b')
                   \<and> NzBuffer_Map b' ofs sz = Inr (Some p, b'')))"
proof (intro conjI allI impI)
  fix b' p b''
  assume run: "NzBuffer_Fill b accepts dropped data ofs sz forceDiscard = Inr (True, b')
               \<and> NzBuffer_Map b' ofs sz = Inr (Some p, b'')"
  then have fill: "NzBuffer_Fill b accepts dropped data ofs sz forceDiscard = Inr (True, b')"
    and map: "NzBuffer_Map b' ofs sz = Inr (Some p, b'')"
    by simp_all
  from Fill_True_cases [OF fill] obtain bytes where pre: "accepts" "nz_impl b = Some bytes"
      "ofs + sz \<le> nz_size b" "sz \<le> length data" "nz_mapped b' = nz_mapped b"
    by blast
  from Map_Some_cases [OF map] pre(5) have unmapped: "\<not> nz_mapped b" and p: "p = ofs"
    by simp_all
  from assms pre(2) have "length bytes = nz_size b" by simp
  from Fill_then_Map_succeed [OF pre(2) this pre(3,4) unmapped, of dropped forceDiscard]
  obtain c' c'' where "NzBuffer_Fill b True dropped data ofs sz forceDiscard = Inr (True, c')"
      "NzBuffer_Map c' ofs sz = Inr (Some ofs, c'')"
      "read_mapped c'' ofs sz = Inr (take sz data)"
    by blast
  with fill map pre(1) p show "read_mapped b'' p sz = Inr (take sz data)"
    by simp
  from pre(4) show "length (take sz data) = sz" by simp
next
  assume ok: "nz_impl b \<noteq> None \<and> \<not> nz_mapped b \<and> ofs + sz \<le> nz_size b
              \<and> sz \<le> length data \<and> accepts"
  then obtain bytes where bytes: "nz_impl b = Some bytes" by blast
  with assms have "length bytes = nz_size b" by simp
  from Fill_then_Map_succeed [OF bytes this, of ofs sz data dropped forceDiscard] ok
  show "\<exists>b' p b''. NzBuffer_Fill b accepts dropped data ofs sz forceDiscard = Inr (True, b')
           \<and> NzBuffer_Map b' ofs sz = Inr (Some p, b'')"
    by auto
qed

theorem Fill_then_Map_observes_written_witness:
  "\<exists>b' b''. NzBuffer_Fill example_nzbuffer True [] [1, 2, 3, 4] 2 3 False = Inr (True, b')
      \<and> nz_impl b' = Some [0, 0, 1, 2, 3, 0, 0, 0]
      \<and> NzBuffer_Map b' 2 3 = Inr (Some 2, b'')
      \<and> read_mapped b'' 2 3 = Inr [1, 2, 3]"
proof -
  have fill: "NzBuffer_Fill example_nzbuffer True [] [1, 2, 3, 4] 2 3 False
      = Inr (True, example_nzbuffer\<lparr>nz_impl := Some [0, 0, 1, 2, 3, 0, 0, 0]\<rparr>)"
    by (simp add: NzBuffer_Fill_def example_nzbuffer_def numeral_eq_Suc)
  have map: "NzBuffer_Map (example_nzbuffer\<lparr>nz_impl := Some [0, 0, 1, 2, 3, 0, 0, 0]\<rparr>) 2 3
      = Inr (Some 2, example_nzbuffer\<lparr>nz_impl := Some [0, 0, 1, 2, 3, 0, 0, 0],
                                       nz_mapped := True\<rparr>)"
    by (simp add: NzBuffer_Map_def example_nzbuffer_def)
  have inv: "\<forall>bytes. nz_impl example_nzbuffer = Some bytes
               \<longrightarrow> length bytes = nz_size example_nzbuffer"
    by (simp add: example_nzbuffer_def)
  from Fill_then_Map_observes_written [OF inv, of True "[]" "[1, 2, 3, 4]" 2 3 False] fill map
  have "read_mapped (example_nzbuffer\<lparr>nz_impl := Some [0, 0, 1, 2, 3, 0, 0, 0],
                                       nz_mapped := True\<rparr>) 2 3 = Inr (take 3 [1, 2, 3, 4])"
    by blast
  then have "read_mapped (example_nzbuffer\<lparr>nz_impl := Some [0, 0, 1, 2, 3, 0, 0, 0],
                                       nz_mapped := True\<rparr>) 2 3 = Inr [1, 2, 3]"
    by (simp add: numeral_eq_Suc)
  with fill map show ?thesis by simp
qed

section \<open>Properties of the vertex buffer window\<close>

text \<open>
  Claim C2. A \<open>VertexBuffer\<close> constructed over the window from \<open>startOffset\<close>
  to \<open>endOffset\<close> with a declaration of stride \<open>stride\<close> reports
  \<open>(endOffset - startOffset) / stride\<close> vertices, in 32-bit arithmetic and,
  when \<open>startOffset \<le> endOffset\<close>, as numbers; they fill the window
  exactly; the construction fails when the window length is not a multiple of
  the stride, and succeeds when it is a multiple of a stride that is not zero.
\<close>

theorem VertexBuffer_vertex_count:
  "(\<forall>vb. NzVertexBuffer_new stride buffer startOffset endOffset = Inr vb
       \<longrightarrow> GetVertexCount vb = (endOffset - startOffset) div stride
           \<and> unat (GetVertexCount vb) = unat (endOffset - startOffset) div unat stride
           \<and> (startOffset \<le> endOffset \<longrightarrow>
                unat (GetVertexCount vb) = (unat endOffset - unat startOffset) div unat stride)
           \<and> GetVertexCount vb * stride = GetEndOffset vb - GetStartOffset vb)
   \<and> ((endOffset - startOffset) mod stride \<noteq> 0
       \<longrightarrow> (\<exists>f. NzVertexBuffer_new stride buffer startOffset endOffset = Inl f))
   \<and> (stride \<noteq> 0 \<and> (endOffset - startOffset) mod stride = 0
       \<longrightarrow> (\<exists>vb. NzVertexBuffer_new stride buffer startOffset endOffset = Inr vb))"
proof (intro conjI allI impI)
  fix vb
  assume new: "NzVertexBuffer_new stride buffer startOffset endOffset = Inr vb"
  then have nz: "stride \<noteq> 0" and multiple: "(endOffset - startOffset) mod stride = 0"
    and vb: "m_vertexCount vb = (endOffset - startOffset) div stride"
      "m_startOffset vb = startOffset" "m_endOffset vb = endOffset"
    by (auto simp: NzVertexBuffer_new_def split: if_splits)
  from vb(1) show count: "GetVertexCount vb = (endOffset - startOffset) div stride"
    by (simp add: GetVertexCount_def)
  then show quotient: "unat (GetVertexCount vb) = unat (endOffset - startOffset) div unat stride"
    by (simp add: unat_div)
  show "unat (GetVertexCount vb) = (unat endOffset - unat startOffset) div unat stride"
    if "startOffset \<le> endOffset"
    using quotient that by (simp add: unat_sub)
  have "(endOffset - startOffset) div stride * stride + (endOffset - startOffset) mod stride
          = endOffset - startOffset"
    by (rule div_mult_mod_eq)
  with multiple count vb(2,3)
  show "GetVertexCount vb * stride = GetEndOffset vb - GetStartOffset vb"
    by (simp add: GetEndOffset_def GetStartOffset_def)
next
  assume "(endOffset - startOffset) mod stride \<noteq> 0"
  then show "\<exists>f. NzVertexBuffer_new stride buffer startOffset endOffset = Inl f"
    by (simp add: NzVertexBuffer_new_def)
next
  assume "stride \<noteq> 0 \<and> (endOffset - startOffset) mod stride = 0"
  then show "\<exists>vb. NzVertexBuffer_new stride buffer startOffset endOffset = Inr vb"
    by (simp add: NzVertexBuffer_new_def)
qed

theorem VertexBuffer_vertex_count_witness:
  "(\<exists>vb. NzVertexBuffer_new 16 example_nzbuffer 0 160 = Inr vb \<and> GetVertexCount vb = 10)
   \<and> (\<exists>f. NzVertexBuffer_new 16 example_nzbuffer 0 100 = Inl f)"
proof -
  have "(160 - 0 :: 32 word) mod 16 = 0" "(100 - 0 :: 32 word) mod 16 \<noteq> 0"
       "(160 - 0 :: 32 word) div 16 = 10"
    by simp_all
  with VertexBuffer_vertex_count [of 16 example_nzbuffer 0 160]
       VertexBuffer_vertex_count [of 16 example_nzbuffer 0 100]
  show ?thesis by auto
qed

end
